theory Spec2Isabelle
  imports Complex_Main "HOL-Library.Multiset"
begin

section \<open>Data model of the report (hooks/useReportStream)\<close>

text \<open>
  The interfaces exported next to \<open>useReportStream\<close>. The numbers of a report are given by
  their values: counts and steps as \<open>int\<close>, scores and percentages as \<open>real\<close>; the
  arithmetic of a component is modelled where the component does it. Where two interfaces
  use one field name, the second occurrence carries a prefix.
\<close>

datatype aspect_sentiment = AspectPositive | AspectNegative | AspectMixed | AspectNeutral

datatype cluster_sentiment = Positive | Negative | Mixed

datatype risk = Low | Medium | High

datatype trend_kind = Improving | Declining | Stable

record ProgressEntry =
  message :: string
  step :: int
  total_steps :: int
  task :: "string option"
  status :: "string option"

record AspectScore =
  aspect :: string
  aspect_sentiment :: aspect_sentiment
  score :: real
  representative_quote :: string
  mention_count :: int

record FakeReport =
  total_reviews :: nat
  flagged_count :: nat
  fake_percentage :: real
  flagged_ids :: "string list"
  risk_level :: risk

record MonthData =
  month :: string
  avg_sentiment :: real

record DriftReport =
  monthly_sentiment :: "MonthData list"
  change_points :: "string list"
  trend :: trend_kind

record Cluster =
  cluster_id :: int
  theme :: string
  review_count :: int
  sentiment :: cluster_sentiment
  top_quotes :: "string list"

record Review =
  review_id :: string
  source :: string
  review_text :: string
  rating :: "real option"
  date :: "string option"
  verified_purchase :: bool
  helpful_votes :: int
  reviewer_id :: "string option"
  fake_score :: real

text \<open>
  A \<open>ReportData\<close> object, complete or partial, is a JavaScript object: a finite map from
  property names to values. The values are those the interface \<open>ReportData\<close> declares
  for its properties.
\<close>

datatype field_value =
    Str string
  | Num real
  | Flag bool
  | Strs "string list"
  | Breakdown "(string \<times> real) list"
  | Aspects "AspectScore list"
  | Fake FakeReport
  | Drift DriftReport
  | Clusters "Cluster list"
  | Reviews "Review list"
  | Distribution "(string \<times> int) list"

type_synonym ReportData = "string \<rightharpoonup> field_value"

section \<open>The stream hook (useReportStream)\<close>

text \<open>
  The \<open>readyState\<close> of the \<open>EventSource\<close> held in \<open>esRef\<close>; \<open>esRef.current\<close> is
  \<open>null\<close> (\<open>None\<close>) until the effect has opened a stream.
\<close>

datatype ready_state = CONNECTING | OPEN | CLOSED

record hook_state =
  report :: "ReportData option"
  progress :: "ProgressEntry list"
  isComplete :: bool
  isCancelled :: bool
  error :: "string option"
  esRef :: "ready_state option"

definition initial_state :: hook_state where
  "initial_state =
     \<lparr>report = None, progress = [], isComplete = False, isCancelled = False,
      error = None, esRef = None\<rparr>"

text \<open>
  The effect of the hook: without a job id it returns at once, otherwise it creates the
  \<open>EventSource\<close> and stores it in \<open>esRef\<close>.
\<close>

definition open_stream :: "string \<Rightarrow> hook_state \<Rightarrow> hook_state" where
  "open_stream jobId st = (if jobId = [] then st else st\<lparr>esRef := Some CONNECTING\<rparr>)"

text \<open>
  The object \<open>JSON.parse(event.data)\<close> yields: each property the handler reads is present
  or absent. \<open>Unparseable\<close> stands for event data on which the body of the \<open>try\<close> block
  throws (\<open>JSON.parse\<close> fails, or the value parsed has no properties to read).
\<close>

record payload =
  p_type :: "string option"
  p_message :: "string option"
  p_step :: "int option"
  p_total_steps :: "int option"
  p_task :: "string option"
  p_status :: "string option"
  p_data :: "ReportData option"

datatype sse_event = Unparseable | Parsed payload

text \<open>\<open>x || d\<close> on an optional string and on an optional number: absent, empty and zero are falsy.\<close>

definition or_string :: "string option \<Rightarrow> string \<Rightarrow> string" where
  "or_string x d = (case x of None \<Rightarrow> d | Some s \<Rightarrow> if s = [] then d else s)"

definition or_number :: "int option \<Rightarrow> int \<Rightarrow> int" where
  "or_number x d = (case x of None \<Rightarrow> d | Some n \<Rightarrow> if n = 0 then d else n)"

definition entry_of :: "payload \<Rightarrow> ProgressEntry" where
  "entry_of p =
     \<lparr>message = or_string (p_message p) [],
      step = or_number (p_step p) 0,
      total_steps = or_number (p_total_steps p) 8,
      task = p_task p,
      status = p_status p\<rparr>"

text \<open>Object spread \<open>{...a, ...b}\<close>: the properties of \<open>a\<close>, overwritten by those of \<open>b\<close>.\<close>

definition spread :: "ReportData option \<Rightarrow> ReportData option \<Rightarrow> ReportData" where
  "spread a b =
     (case a of None \<Rightarrow> Map.empty | Some x \<Rightarrow> x) ++ (case b of None \<Rightarrow> Map.empty | Some y \<Rightarrow> y)"

definition es_close :: "hook_state \<Rightarrow> hook_state" where
  "es_close st = st\<lparr>esRef := Some CLOSED\<rparr>"

text \<open>The handler \<open>es.onmessage\<close>, branch by branch.\<close>

definition onmessage :: "hook_state \<Rightarrow> sse_event \<Rightarrow> hook_state" where
  "onmessage st ev =
     (case ev of
        Unparseable \<Rightarrow> st
      | Parsed p \<Rightarrow>
          if p_type p = Some ''progress'' then
            st\<lparr>progress := progress st @ [entry_of p]\<rparr>
          else if p_type p = Some ''partial'' then
            st\<lparr>report := Some (spread (report st) (p_data p))\<rparr>
          else if p_type p = Some ''complete'' then
            es_close (st\<lparr>report := p_data p, isComplete := True\<rparr>)
          else if p_type p = Some ''cancelled'' then
            es_close (st\<lparr>isCancelled := True\<rparr>)
          else if p_type p = Some ''error'' then
            es_close (st\<lparr>error := Some (or_string (p_message p) ''An error occurred'')\<rparr>)
          else st)"

text \<open>
  What the browser does with a frame that arrives on the stream: an \<open>EventSource\<close> whose
  \<open>readyState\<close> is \<open>CLOSED\<close> dispatches no event, and without an \<open>EventSource\<close> there is
  no handler; otherwise \<open>onmessage\<close> runs. The handler has no guard of its own: closing
  the source is the hook's only means to stop listening.
\<close>

definition receive :: "hook_state \<Rightarrow> sse_event \<Rightarrow> hook_state" where
  "receive st ev =
     (case esRef st of
        None \<Rightarrow> st
      | Some CLOSED \<Rightarrow> st
      | Some _ \<Rightarrow> onmessage st ev)"

definition receive_all :: "hook_state \<Rightarrow> sse_event list \<Rightarrow> hook_state" where
  "receive_all st evs = foldl receive st evs"

definition is_terminal :: "sse_event \<Rightarrow> bool" where
  "is_terminal ev =
     (case ev of
        Unparseable \<Rightarrow> False
      | Parsed p \<Rightarrow> p_type p = Some ''complete'' \<or> p_type p = Some ''cancelled''
                    \<or> p_type p = Some ''error'')"

text \<open>The payloads of the \<open>progress\<close> frames among the events, in order.\<close>

fun progress_frames :: "sse_event list \<Rightarrow> payload list" where
  "progress_frames [] = []"
| "progress_frames (Unparseable # evs) = progress_frames evs"
| "progress_frames (Parsed p # evs) =
     (if p_type p = Some ''progress'' then p # progress_frames evs else progress_frames evs)"

text \<open>A stream is live while its event source exists and is not closed.\<close>

definition live :: "hook_state \<Rightarrow> bool" where
  "live st = (esRef st = Some CONNECTING \<or> esRef st = Some OPEN)"

text \<open>
  \<open>cancel\<close>: close the stream held in \<open>esRef\<close> (if any), set the cancelled flag, then
  post the cancellation request inside \<open>try\<close>/\<open>catch\<close>. The outcome of \<open>fetch\<close> is the
  environment's: the promise resolves with a response (of any HTTP status) or rejects.
  The value is the outcome of the promise \<open>cancel\<close> returns, with the new state.
\<close>

datatype fetch_outcome = Resolved nat | Rejected string

definition cancel :: "fetch_outcome \<Rightarrow> hook_state \<Rightarrow> (string + unit) \<times> hook_state" where
  "cancel outcome st =
     (let st1 = st\<lparr>esRef := map_option (\<lambda>_. CLOSED) (esRef st)\<rparr>;
          st2 = st1\<lparr>isCancelled := True\<rparr>
      in case outcome of
           Resolved _ \<Rightarrow> (Inr (), st2)
         | Rejected _ \<Rightarrow> (Inr (), st2))"

section \<open>The progress panel (components/ProgressStream)\<close>

definition latestMessage :: "ProgressEntry list \<Rightarrow> string" where
  "latestMessage prog = (if length prog > 0 then message (prog ! (length prog - 1)) else ''Starting...'')"

section \<open>Theme clusters (components/ThemeClusters)\<close>

text \<open>
  \<open>Array.prototype.sort\<close> with a comparator: the sort is stable, and for a consistent
  comparator its result is the one a stable insertion sort gives. An element goes before
  the first element it does not compare greater than.
\<close>

fun insert_by :: "('a \<Rightarrow> 'a \<Rightarrow> int) \<Rightarrow> 'a \<Rightarrow> 'a list \<Rightarrow> 'a list" where
  "insert_by cmp x [] = [x]"
| "insert_by cmp x (y # ys) = (if cmp x y \<le> 0 then x # y # ys else y # insert_by cmp x ys)"

definition array_sort :: "('a \<Rightarrow> 'a \<Rightarrow> int) \<Rightarrow> 'a list \<Rightarrow> 'a list" where
  "array_sort cmp xs = foldr (insert_by cmp) xs []"

text \<open>
  Arrays are objects with identity: a store holds the arrays, an array reference is its
  index in the store, below the length of the store (JavaScript has no dangling reference).
  \<open>[...a]\<close> allocates a new array with the elements of \<open>a\<close>; \<open>sort\<close> rearranges the
  array it is called on, in place.
\<close>

type_synonym 'a store = "'a list list"

definition array_copy :: "'a store \<Rightarrow> nat \<Rightarrow> 'a store \<times> nat" where
  "array_copy h a = (h @ [h ! a], length h)"

definition sort_in_place :: "('a \<Rightarrow> 'a \<Rightarrow> int) \<Rightarrow> 'a store \<Rightarrow> nat \<Rightarrow> 'a store" where
  "sort_in_place cmp h a = h[a := array_sort cmp (h ! a)]"

definition by_review_count_desc :: "Cluster \<Rightarrow> Cluster \<Rightarrow> int" where
  "by_review_count_desc a b = review_count b - review_count a"

record sentiment_style =
  label :: string
  colour :: string

definition sentimentConfig :: "cluster_sentiment \<Rightarrow> sentiment_style" where
  "sentimentConfig s =
     (case s of
        Positive \<Rightarrow> \<lparr>label = ''Positive'', colour = ''green''\<rparr>
      | Negative \<Rightarrow> \<lparr>label = ''Negative'', colour = ''red''\<rparr>
      | Mixed \<Rightarrow> \<lparr>label = ''Mixed'', colour = ''yellow''\<rparr>)"

record cluster_card =
  card_key :: int
  card_title :: string
  card_style :: sentiment_style
  card_count :: int
  card_plural :: bool
  card_quotes :: "string list"

definition shorten_quote :: "string \<Rightarrow> string" where
  "shorten_quote quote = (if length quote > 150 then take 147 quote @ ''...'' else quote)"

definition cluster_card :: "Cluster \<Rightarrow> cluster_card" where
  "cluster_card c =
     \<lparr>card_key = cluster_id c,
      card_title = theme c,
      card_style = sentimentConfig (sentiment c),
      card_count = review_count c,
      card_plural = (review_count c \<noteq> 1),
      card_quotes = map shorten_quote (take 2 (top_quotes c))\<rparr>"

text \<open>
  The component, given the store and the reference \<open>clusters\<close> of its prop: the store
  it leaves and the cards it renders, in order.
\<close>

definition ThemeClusters :: "Cluster store \<Rightarrow> nat \<Rightarrow> Cluster store \<times> cluster_card list" where
  "ThemeClusters h clusters =
     (let (h1, sorted) = array_copy h clusters;
          h2 = sort_in_place by_review_count_desc h1 sorted
      in (h2, map cluster_card (h2 ! sorted)))"

section \<open>Rating distribution (components/RatingDistribution)\<close>

text \<open>
  Counts are integers of the safe range, which JavaScript adds exactly. A quotient is not an
  integer: JavaScript numbers are binary64 floating-point numbers, and every division and
  multiplication yields the exact result rounded to 53 significant bits, a tie going to the
  even significand. \<open>exponent x\<close> is the \<open>e\<close> with \<open>2^e \<le> x < 2^(e+1)\<close>, found by halving
  or doubling. The bounds of the exponent range of the format are not modelled: quotients of
  counts and their products with 100 are far inside them.
\<close>

function halvings :: "real \<Rightarrow> nat" where
  "halvings x = (if 2 \<le> x then Suc (halvings (x / 2)) else 0)"
  by pat_completeness auto
termination
proof (relation "measure (\<lambda>x. nat \<lfloor>x\<rfloor>)")
  show "wf (measure (\<lambda>x::real. nat \<lfloor>x\<rfloor>))"
    by simp
next
  fix x :: real
  assume x: "2 \<le> x"
  have "of_int \<lfloor>x / 2\<rfloor> \<le> x / 2"
    by (rule of_int_floor_le)
  with x have "of_int (\<lfloor>x / 2\<rfloor> + 1) \<le> x"
    by simp
  then have "\<lfloor>x / 2\<rfloor> + 1 \<le> \<lfloor>x\<rfloor>"
    by (simp only: le_floor_iff)
  moreover have "2 \<le> \<lfloor>x\<rfloor>"
    using x by (simp add: le_floor_iff)
  ultimately have "nat \<lfloor>x / 2\<rfloor> < nat \<lfloor>x\<rfloor>"
    by linarith
  then show "(x / 2, x) \<in> measure (\<lambda>x. nat \<lfloor>x\<rfloor>)"
    by simp
qed

function doublings :: "real \<Rightarrow> nat" where
  "doublings x = (if 0 < x \<and> x < 1 then Suc (doublings (2 * x)) else 0)"
  by pat_completeness auto
termination
proof (relation "measure (\<lambda>x. nat \<lfloor>1 / x\<rfloor>)")
  show "wf (measure (\<lambda>x::real. nat \<lfloor>1 / x\<rfloor>))"
    by simp
next
  fix x :: real
  assume x: "0 < x \<and> x < 1"
  have half: "nat \<lfloor>y / 2\<rfloor> < nat \<lfloor>y\<rfloor>" if y: "1 < y" for y :: real
  proof -
    have "of_int \<lfloor>y / 2\<rfloor> \<le> y / 2"
      by (rule of_int_floor_le)
    moreover have "y / 2 + 1 \<le> y \<or> \<lfloor>y / 2\<rfloor> = 0"
    proof (cases "2 \<le> y")
      case True
      then show ?thesis by linarith
    next
      case False
      with y have "0 \<le> y / 2" and "y / 2 < 1"
        by linarith+
      then have "\<lfloor>y / 2\<rfloor> = 0"
        by (simp only: floor_eq_iff) simp
      then show ?thesis ..
    qed
    ultimately have "of_int \<lfloor>y / 2\<rfloor> + 1 \<le> y"
      using y by auto
    then have "of_int (\<lfloor>y / 2\<rfloor> + 1) \<le> y"
      by simp
    then have "\<lfloor>y / 2\<rfloor> + 1 \<le> \<lfloor>y\<rfloor>"
      by (simp only: le_floor_iff)
    moreover have "1 \<le> \<lfloor>y\<rfloor>"
      using y by (simp add: le_floor_iff)
    ultimately show ?thesis
      by linarith
  qed
  have "1 < 1 / x"
    using x by simp
  then have "nat \<lfloor>(1 / x) / 2\<rfloor> < nat \<lfloor>1 / x\<rfloor>"
    by (rule half)
  moreover have "1 / (2 * x) = (1 / x) / 2"
    by simp
  ultimately have "nat \<lfloor>1 / (2 * x)\<rfloor> < nat \<lfloor>1 / x\<rfloor>"
    by (simp only:)
  then show "(2 * x, x) \<in> measure (\<lambda>x. nat \<lfloor>1 / x\<rfloor>)"
    by simp
qed

declare halvings.simps [simp del] doublings.simps [simp del]

definition exponent :: "real \<Rightarrow> int" where
  "exponent x = (if 1 \<le> x then int (halvings x) else - int (doublings x))"

definition round_half_even :: "real \<Rightarrow> int" where
  "round_half_even y =
     (if y - of_int \<lfloor>y\<rfloor> < 1 / 2 then \<lfloor>y\<rfloor>
      else if 1 / 2 < y - of_int \<lfloor>y\<rfloor> then \<lfloor>y\<rfloor> + 1
      else if even \<lfloor>y\<rfloor> then \<lfloor>y\<rfloor> else \<lfloor>y\<rfloor> + 1)"

text \<open>The binary64 number nearest to \<open>x\<close>: \<open>x\<close> in units of \<open>2^(e-52)\<close>, rounded.\<close>

definition fl :: "real \<Rightarrow> real" where
  "fl x =
     (if x = 0 then 0
      else let u = 2 powi (exponent \<bar>x\<bar> - 52)
           in of_int (round_half_even (x / u)) * u)"

text \<open>\<open>Math.round\<close>: the nearest integer, a tie going up.\<close>

definition Math_round :: "real \<Rightarrow> int" where
  "Math_round x = \<lfloor>x + 1 / 2\<rfloor>"

text \<open>
  \<open>Math.round((count / total) * 100)\<close>: the quotient is rounded to binary64, then its
  product with 100 is. A JavaScript division by zero raises nothing: it yields \<open>NaN\<close> or
  an infinity, which \<open>Math.round\<close> passes on; \<open>None\<close> stands for that outcome.
\<close>

definition percentage :: "int \<Rightarrow> int \<Rightarrow> int option" where
  "percentage cnt tot =
     (if tot = 0 then None
      else Some (Math_round (fl (fl (real_of_int cnt / real_of_int tot) * 100))))"

text \<open>
  The percentage in the words of the specification, \<open>round(100 x count / total)\<close>, taken
  exactly.
\<close>

definition round_100_count_over_total :: "int \<Rightarrow> int \<Rightarrow> int" where
  "round_100_count_over_total cnt tot = \<lfloor>100 * real_of_int cnt / real_of_int tot + 1 / 2\<rfloor>"

text \<open>\<open>String(star)\<close> for the stars the component lists.\<close>

definition String_of_star :: "nat \<Rightarrow> string" where
  "String_of_star n =
     (if n = 1 then ''1'' else if n = 2 then ''2'' else if n = 3 then ''3''
      else if n = 4 then ''4'' else if n = 5 then ''5'' else [])"

record rating_row =
  row_star :: nat
  row_count :: int
  row_pct :: "int option"

datatype rating_view = NoStarRatings | RatingBars "rating_row list" int

text \<open>
  The \<open>distribution\<close> prop is an object from star keys to counts: its properties in
  order, as pairs. \<open>Object.values(distribution).reduce((s, n) => s + n, 0)\<close> folds
  over the values.
\<close>

definition distribution_total :: "(string \<times> int) list \<Rightarrow> int" where
  "distribution_total distribution = foldl (\<lambda>s n. s + n) 0 (map snd distribution)"

definition rating_row :: "(string \<times> int) list \<Rightarrow> int \<Rightarrow> nat \<Rightarrow> rating_row" where
  "rating_row distribution tot star =
     (let cnt = (case map_of distribution (String_of_star star) of None \<Rightarrow> 0 | Some n \<Rightarrow> n)
      in \<lparr>row_star = star, row_count = cnt, row_pct = percentage cnt tot\<rparr>)"

definition RatingDistribution :: "(string \<times> int) list \<Rightarrow> rating_view" where
  "RatingDistribution distribution =
     (let tot = distribution_total distribution
      in if tot = 0 then NoStarRatings
         else RatingBars (map (rating_row distribution tot) [5, 4, 3, 2, 1]) tot)"

section \<open>Submitting an analysis (app/page, app/report/[jobId]/page)\<close>

text \<open>The JSON body posted to \<open>/api/analyze\<close>.\<close>

record analyze_request =
  query :: string
  use_cache :: bool

text \<open>
  \<open>String.prototype.trim\<close> strips white space and line terminators from both ends. Of
  these, the characters of the 8-bit \<open>char\<close> are tab, line feed, vertical tab, form feed,
  carriage return, space and the no-break space.
\<close>

definition js_whitespace :: "char \<Rightarrow> bool" where
  "js_whitespace c =
     (c \<in> set [CHR 0x09, CHR 0x0A, CHR 0x0B, CHR 0x0C, CHR 0x0D, CHR 0x20, CHR 0xA0])"

definition trim :: "string \<Rightarrow> string" where
  "trim s = rev (dropWhile js_whitespace (rev (dropWhile js_whitespace s)))"

text \<open>
  \<open>HomePage.handleSubmit\<close>: nothing happens for a blank query; otherwise the query moves
  to the front of the search history (at most 15 entries are kept) and the request is
  posted. The value is the new history and the request posted, if any.
\<close>

definition handleSubmit :: "string list \<Rightarrow> string \<Rightarrow> string list \<times> analyze_request option" where
  "handleSubmit searchHistory q =
     (let trimmed = trim q
      in if trimmed = [] then (searchHistory, None)
         else (take 15 (trimmed # filter (\<lambda>item. item \<noteq> trimmed) searchHistory),
               Some \<lparr>query = trimmed, use_cache = True\<rparr>))"

text \<open>The home page without the search history has the same \<open>handleSubmit\<close>, less the history.\<close>

definition handleSubmit_plain :: "string \<Rightarrow> analyze_request option" where
  "handleSubmit_plain q =
     (let trimmed = trim q
      in if trimmed = [] then None else Some \<lparr>query = trimmed, use_cache = True\<rparr>)"

text \<open>\<open>report?.product_name\<close>: absent without a report or without the property.\<close>

definition product_name_of :: "ReportData option \<Rightarrow> string option" where
  "product_name_of rep =
     (case rep of
        None \<Rightarrow> None
      | Some r \<Rightarrow> (case r ''product_name'' of Some (Str s) \<Rightarrow> Some s | _ \<Rightarrow> None))"

text \<open>
  \<open>ReportPage.handleRefresh\<close>: returns at once without a product name (absent or empty)
  or while a refresh is under way; otherwise posts the request.
\<close>

definition handleRefresh :: "ReportData option \<Rightarrow> bool \<Rightarrow> analyze_request option" where
  "handleRefresh rep isRefreshing =
     (case product_name_of rep of
        None \<Rightarrow> None
      | Some name \<Rightarrow>
          if name = [] \<or> isRefreshing then None
          else Some \<lparr>query = name, use_cache = False\<rparr>)"

text \<open>
  Modelled from the spec: the orchestrator's use of the report cache on \<open>submit\<close>
  (section 4.1), the backend not being among the sources. With \<open>use_cache\<close> true and
  a non-expired cached report for the normalized query the job short-circuits to that
  report. The look-up in the cache, normalization and expiry included, is the parameter.
\<close>

definition cache_short_circuit :: "(string \<Rightarrow> 'r option) \<Rightarrow> analyze_request \<Rightarrow> 'r option" where
  "cache_short_circuit lookup req = (if use_cache req then lookup (query req) else None)"

section \<open>Sentiment timeline (components/SentimentTimeline)\<close>

definition trendColors :: "trend_kind \<Rightarrow> string" where
  "trendColors t = (case t of Improving \<Rightarrow> ''#22c55e'' | Declining \<Rightarrow> ''#ef4444'' | Stable \<Rightarrow> ''#3b82f6'')"

text \<open>What the component returns: the fallback, or the trend badge, the change-point note and the svg.\<close>

datatype timeline_view = NotEnoughData | TimelineChart trend_kind "nat option"

definition SentimentTimeline :: "MonthData list \<Rightarrow> string list \<Rightarrow> trend_kind \<Rightarrow> timeline_view" where
  "SentimentTimeline monthly changePoints t =
     (if length monthly < 2 then NotEnoughData
      else TimelineChart t (if length changePoints > 0 then Some (length changePoints) else None))"

text \<open>
  What the effect draws into the svg, in order. A point is a date (as the time of
  \<open>Date.getTime\<close>) with a value. \<open>d3.timeParse\<close> is the parameter \<open>parseMonth\<close>.
\<close>

datatype draw_op =
    RemoveAll
  | GridLines
  | AreaPath string "(int \<times> real) list"
  | LinePath string "(int \<times> real) list"
  | Dots string "(int \<times> real) list"
  | ChangeLine int
  | ChangeLabel int
  | BottomAxis nat
  | LeftAxis

definition d3_min :: "int list \<Rightarrow> int option" where
  "d3_min xs = (case xs of [] \<Rightarrow> None | x # r \<Rightarrow> Some (foldl min x r))"

definition d3_max :: "int list \<Rightarrow> int option" where
  "d3_max xs = (case xs of [] \<Rightarrow> None | x # r \<Rightarrow> Some (foldl max x r))"

definition timeline_data :: "(string \<Rightarrow> int option) \<Rightarrow> MonthData list \<Rightarrow> (int \<times> real) list" where
  "timeline_data parseMonth monthly =
     array_sort (\<lambda>a b. fst a - fst b)
       (List.map_filter (\<lambda>d. map_option (\<lambda>t. (t, avg_sentiment d)) (parseMonth (month d))) monthly)"

definition in_range :: "int \<Rightarrow> (int \<times> real) list \<Rightarrow> bool" where
  "in_range cp data =
     (case (d3_min (map fst data), d3_max (map fst data)) of
        (Some lo, Some hi) \<Rightarrow> lo \<le> cp \<and> cp \<le> hi
      | _ \<Rightarrow> False)"

definition draw_timeline ::
  "bool \<Rightarrow> (string \<Rightarrow> int option) \<Rightarrow> MonthData list \<Rightarrow> string list \<Rightarrow> trend_kind \<Rightarrow> draw_op list" where
  "draw_timeline svg_mounted parseMonth monthly changePoints t =
     (if \<not> svg_mounted \<or> length monthly < 2 then []
      else
        let data = timeline_data parseMonth monthly;
            cpParsed = List.map_filter parseMonth changePoints
        in [RemoveAll, GridLines, AreaPath (trendColors t) data, LinePath (trendColors t) data,
            Dots (trendColors t) data]
           @ concat (map (\<lambda>cp. if in_range cp data then [ChangeLine cp, ChangeLabel cp] else []) cpParsed)
           @ [BottomAxis (min (length data) 6), LeftAxis])"

section \<open>The report page (app/report/[jobId]/page)\<close>


















section \<open>Guards of the analysis engines\<close>


text \<open>
  Modelled from the spec: the drift detector (section 4.6), the backend not being among
  the sources. The dated reviews, as pairs of calendar month and sentiment, are bucketed by
  month with the mean sentiment of each bucket. With fewer than 2 populated months the
  detector returns an empty monthly list and the trend stable, and does not invoke the
  detection algorithm. The change-point procedure, which may fail, and the trend
  classification are the parameters.
\<close>

definition populated_months :: "(string \<times> real) list \<Rightarrow> string list" where
  "populated_months dated = remdups (map fst dated)"

definition mean :: "real list \<Rightarrow> real" where
  "mean xs = sum_list xs / real (length xs)"

definition monthly_means :: "(string \<times> real) list \<Rightarrow> MonthData list" where
  "monthly_means dated =
     map (\<lambda>m. \<lparr>month = m, avg_sentiment = mean (map snd (filter (\<lambda>p. fst p = m) dated))\<rparr>)
       (populated_months dated)"

definition detect_drift ::
  "(MonthData list \<Rightarrow> string + string list) \<Rightarrow> (MonthData list \<Rightarrow> trend_kind) \<Rightarrow>
   (string \<times> real) list \<Rightarrow> string + DriftReport" where
  "detect_drift changepoints classify dated =
     (let monthly = monthly_means dated
      in if length monthly < 2
         then Inr \<lparr>monthly_sentiment = [], change_points = [], trend = Stable\<rparr>
         else (case changepoints monthly of
                 Inl e \<Rightarrow> Inl e
               | Inr cps \<Rightarrow>
                   Inr \<lparr>monthly_sentiment = monthly, change_points = cps, trend = classify monthly\<rparr>))"

section \<open>Sample inputs\<close>

text \<open>A frame of a given type with no other property.\<close>

definition frame :: "string \<Rightarrow> payload" where
  "frame ty =
     \<lparr>p_type = Some ty, p_message = None, p_step = None, p_total_steps = None,
      p_task = None, p_status = None, p_data = None\<rparr>"

definition sample_report :: ReportData where
  "sample_report = [''product_name'' \<mapsto> Str ''Kettle'', ''overall_score'' \<mapsto> Num 5]"


definition sample_partial :: payload where
  "sample_partial = (frame ''partial'')\<lparr>p_data := Some [''overall_score'' \<mapsto> Num 7]\<rparr>"

definition sample_complete :: payload where
  "sample_complete = (frame ''complete'')\<lparr>p_data := Some sample_report\<rparr>"

definition sample_progress :: "string \<Rightarrow> int \<Rightarrow> payload" where
  "sample_progress msg n = (frame ''progress'')\<lparr>p_message := Some msg, p_step := Some n\<rparr>"

definition sample_clusters :: "Cluster list" where
  "sample_clusters =
     [\<lparr>cluster_id = 0, theme = ''Battery'', review_count = 4, sentiment = Mixed, top_quotes = []\<rparr>,
      \<lparr>cluster_id = 1, theme = ''Sound'', review_count = 9, sentiment = Positive, top_quotes = []\<rparr>,
      \<lparr>cluster_id = 2, theme = ''Price'', review_count = 4, sentiment = Negative, top_quotes = []\<rparr>]"

section \<open>Properties of the stream hook\<close>

lemma receive_not_live: "\<not> live st \<Longrightarrow> receive st ev = st"
  by (auto simp: live_def receive_def split: option.splits ready_state.splits)

lemma receive_all_not_live: "\<not> live st \<Longrightarrow> receive_all st evs = st"
  unfolding receive_all_def
  by (induction evs) (simp_all add: receive_not_live)

lemma receive_live: "live st \<Longrightarrow> receive st ev = onmessage st ev"
  by (auto simp: live_def receive_def)

lemma onmessage_terminal_closed: "is_terminal ev \<Longrightarrow> esRef (onmessage st ev) = Some CLOSED"
  by (auto simp: is_terminal_def onmessage_def es_close_def split: sse_event.splits)

lemma onmessage_nonterminal_esRef: "\<not> is_terminal ev \<Longrightarrow> esRef (onmessage st ev) = esRef st"
  by (auto simp: is_terminal_def onmessage_def es_close_def split: sse_event.splits)

lemma progress_onmessage:
  "progress (onmessage st ev) @ map entry_of (progress_frames evs) =
     progress st @ map entry_of (progress_frames (ev # evs))"
  by (cases ev) (auto simp: onmessage_def es_close_def)

lemma progress_onmessage_terminal: "is_terminal ev \<Longrightarrow> progress (onmessage st ev) = progress st"
  by (auto simp: is_terminal_def onmessage_def es_close_def split: sse_event.splits)

lemma progress_foldl_onmessage:
  "progress (foldl onmessage st evs) = progress st @ map entry_of (progress_frames evs)"
proof (induction evs arbitrary: st)
  case Nil
  show ?case by simp
next
  case (Cons ev evs)
  have "progress (foldl onmessage st (ev # evs)) =
          progress (onmessage st ev) @ map entry_of (progress_frames evs)"
    using Cons.IH [of "onmessage st ev"] by simp
  then show ?case
    by (simp only: progress_onmessage)
qed

lemma progress_receive_all:
  "live st \<Longrightarrow>
   progress (receive_all st evs) =
     progress st @ map entry_of (progress_frames (takeWhile (\<lambda>e. \<not> is_terminal e) evs))"
proof (induction evs arbitrary: st)
  case Nil
  show ?case by (simp add: receive_all_def)
next
  case (Cons ev evs)
  have step: "receive_all st (ev # evs) = receive_all (onmessage st ev) evs"
    using Cons.prems by (simp add: receive_all_def receive_live)
  show ?case
  proof (cases "is_terminal ev")
    case True
    have "\<not> live (onmessage st ev)"
      using True by (simp add: live_def onmessage_terminal_closed)
    then have "receive_all (onmessage st ev) evs = onmessage st ev"
      by (rule receive_all_not_live)
    then show ?thesis
      using True step by (simp add: progress_onmessage_terminal)
  next
    case False
    have l: "live (onmessage st ev)"
      using False Cons.prems by (simp add: live_def onmessage_nonterminal_esRef)
    have "progress (receive_all st (ev # evs)) =
            progress (onmessage st ev) @
              map entry_of (progress_frames (takeWhile (\<lambda>e. \<not> is_terminal e) evs))"
      using step Cons.IH [OF l] by simp
    also have "\<dots> = progress st @
              map entry_of (progress_frames (ev # takeWhile (\<lambda>e. \<not> is_terminal e) evs))"
      by (rule progress_onmessage)
    finally show ?thesis
      using False by simp
  qed
qed

text \<open>
  C2. On a stream that is still delivering, a frame of type \<open>complete\<close>, \<open>cancelled\<close> or
  \<open>error\<close> closes the event source, and whatever frames arrive afterwards, the whole
  state of the hook stays as the terminal frame left it: report, progress list, completion
  flag, cancellation flag and error.
\<close>

theorem terminal_frame_closes_stream:
  assumes "live st" and "is_terminal ev"
  shows "esRef (receive st ev) = Some CLOSED \<and>
         receive_all (receive st ev) evs = receive st ev \<and>
         report (receive_all (receive st ev) evs) = report (receive st ev) \<and>
         progress (receive_all (receive st ev) evs) = progress (receive st ev) \<and>
         isComplete (receive_all (receive st ev) evs) = isComplete (receive st ev) \<and>
         isCancelled (receive_all (receive st ev) evs) = isCancelled (receive st ev) \<and>
         error (receive_all (receive st ev) evs) = error (receive st ev)"
proof -
  have closed: "esRef (receive st ev) = Some CLOSED"
    using assms by (simp add: receive_live onmessage_terminal_closed)
  then have "\<not> live (receive st ev)"
    by (simp add: live_def)
  then have "receive_all (receive st ev) evs = receive st ev"
    by (rule receive_all_not_live)
  with closed show ?thesis by simp
qed

theorem terminal_frame_closes_stream_witness:
  "live (open_stream ''job-1'' initial_state) \<and>
   is_terminal (Parsed (frame ''complete'')) \<and>
   esRef (receive (open_stream ''job-1'' initial_state) (Parsed (frame ''complete''))) = Some CLOSED \<and>
   progress (receive_all (receive (open_stream ''job-1'' initial_state) (Parsed (frame ''complete'')))
      [Parsed (frame ''progress''), Parsed (frame ''error'')]) = [] \<and>
   error (receive_all (receive (open_stream ''job-1'' initial_state) (Parsed (frame ''complete'')))
      [Parsed (frame ''progress''), Parsed (frame ''error'')]) = None"
proof -
  have l: "live (open_stream ''job-1'' initial_state)"
    by (simp add: live_def open_stream_def initial_state_def)
  have t: "is_terminal (Parsed (frame ''complete''))"
    by (simp add: is_terminal_def frame_def)
  have v: "receive (open_stream ''job-1'' initial_state) (Parsed (frame ''complete'')) =
             \<lparr>report = None, progress = [], isComplete = True, isCancelled = False,
              error = None, esRef = Some CLOSED\<rparr>"
    by (simp add: receive_def open_stream_def initial_state_def onmessage_def frame_def es_close_def)
  show ?thesis
    using l t terminal_frame_closes_stream [OF l t, of "[Parsed (frame ''progress''), Parsed (frame ''error'')]"]
    by (simp add: v)
qed

text \<open>
  C3. \<open>cancel\<close> always resolves successfully, whatever the outcome of the cancellation
  request; it sets the cancelled flag and closes the stream, so that no later frame is
  delivered; the resulting state does not depend on the outcome of the request; and a second
  \<open>cancel\<close> succeeds again and leaves that state as it is.
\<close>

theorem cancel_succeeds_and_is_idempotent:
  "fst (cancel outcome st) = Inr () \<and>
   isCancelled (snd (cancel outcome st)) \<and>
   esRef (snd (cancel outcome st)) = map_option (\<lambda>_. CLOSED) (esRef st) \<and>
   \<not> live (snd (cancel outcome st)) \<and>
   snd (cancel outcome st) = snd (cancel (Resolved 200) st) \<and>
   receive_all (snd (cancel outcome st)) evs = snd (cancel outcome st) \<and>
   cancel outcome' (snd (cancel outcome st)) = (Inr (), snd (cancel outcome st))"
proof -
  have c: "cancel outcome s = (Inr (), s\<lparr>esRef := map_option (\<lambda>_. CLOSED) (esRef s), isCancelled := True\<rparr>)"
    for outcome s
    by (cases outcome) (simp_all add: cancel_def)
  have n: "\<not> live (snd (cancel outcome st))"
    by (cases "esRef st") (simp_all add: c live_def)
  have "receive_all (snd (cancel outcome st)) evs = snd (cancel outcome st)"
    using n by (rule receive_all_not_live)
  moreover have "cancel outcome' (snd (cancel outcome st)) = (Inr (), snd (cancel outcome st))"
    by (simp add: c option.map_comp comp_def)
  ultimately show ?thesis
    using n by (simp add: c)
qed

theorem cancel_succeeds_and_is_idempotent_witness:
  "cancel (Rejected ''Failed to fetch'') (open_stream ''job-1'' initial_state) =
     (Inr (), \<lparr>report = None, progress = [], isComplete = False, isCancelled = True,
               error = None, esRef = Some CLOSED\<rparr>) \<and>
   cancel (Resolved 500) (snd (cancel (Rejected ''Failed to fetch'') (open_stream ''job-1'' initial_state))) =
     (Inr (), \<lparr>report = None, progress = [], isComplete = False, isCancelled = True,
               error = None, esRef = Some CLOSED\<rparr>)"
proof -
  have v: "snd (cancel (Rejected ''Failed to fetch'') (open_stream ''job-1'' initial_state)) =
     \<lparr>report = None, progress = [], isComplete = False, isCancelled = True,
      error = None, esRef = Some CLOSED\<rparr>"
    by (simp add: cancel_def open_stream_def initial_state_def)
  note th = cancel_succeeds_and_is_idempotent
            [of "Rejected ''Failed to fetch''" "open_stream ''job-1'' initial_state" "[]" "Resolved 500"]
  from th have a: "fst (cancel (Rejected ''Failed to fetch'') (open_stream ''job-1'' initial_state)) = Inr ()"
    by blast
  from th have b: "cancel (Resolved 500) (snd (cancel (Rejected ''Failed to fetch'') (open_stream ''job-1'' initial_state))) =
      (Inr (), snd (cancel (Rejected ''Failed to fetch'') (open_stream ''job-1'' initial_state)))"
    by blast
  show ?thesis
    using a b by (simp add: v prod_eq_iff)
qed

text \<open>
  C4. A \<open>partial\<close> frame sets exactly the report properties its data carries and keeps every
  other property of the previous report (an absent previous report counts as empty); nothing
  else of the state changes. A \<open>complete\<close> frame replaces the report by the frame's data,
  sets the completion flag and closes the stream, after which no frame changes the state.
\<close>

theorem partial_merges_complete_replaces:
  "(p_type p = Some ''partial'' \<longrightarrow>
      (\<exists>r. report (onmessage st (Parsed p)) = Some r \<and>
           (\<forall>k. r k = (case (case p_data p of None \<Rightarrow> Map.empty | Some d \<Rightarrow> d) k of
                          Some v \<Rightarrow> Some v
                        | None \<Rightarrow> (case report st of None \<Rightarrow> Map.empty | Some old \<Rightarrow> old) k))) \<and>
      progress (onmessage st (Parsed p)) = progress st \<and>
      isComplete (onmessage st (Parsed p)) = isComplete st \<and>
      isCancelled (onmessage st (Parsed p)) = isCancelled st \<and>
      error (onmessage st (Parsed p)) = error st \<and>
      esRef (onmessage st (Parsed p)) = esRef st) \<and>
   (p_type p = Some ''complete'' \<longrightarrow>
      report (onmessage st (Parsed p)) = p_data p \<and>
      isComplete (onmessage st (Parsed p)) \<and>
      esRef (onmessage st (Parsed p)) = Some CLOSED \<and>
      receive_all (onmessage st (Parsed p)) evs = onmessage st (Parsed p))"
proof (intro conjI impI)
  assume t: "p_type p = Some ''partial''"
  have r: "report (onmessage st (Parsed p)) = Some (spread (report st) (p_data p))"
    using t by (simp add: onmessage_def)
  have "\<forall>k. spread (report st) (p_data p) k =
          (case (case p_data p of None \<Rightarrow> Map.empty | Some d \<Rightarrow> d) k of
             Some v \<Rightarrow> Some v
           | None \<Rightarrow> (case report st of None \<Rightarrow> Map.empty | Some old \<Rightarrow> old) k)"
    by (simp add: spread_def map_add_def)
  with r show "\<exists>r. report (onmessage st (Parsed p)) = Some r \<and>
           (\<forall>k. r k = (case (case p_data p of None \<Rightarrow> Map.empty | Some d \<Rightarrow> d) k of
                          Some v \<Rightarrow> Some v
                        | None \<Rightarrow> (case report st of None \<Rightarrow> Map.empty | Some old \<Rightarrow> old) k))"
    by blast
  show "progress (onmessage st (Parsed p)) = progress st"
    using t by (simp add: onmessage_def)
  show "isComplete (onmessage st (Parsed p)) = isComplete st"
    using t by (simp add: onmessage_def)
  show "isCancelled (onmessage st (Parsed p)) = isCancelled st"
    using t by (simp add: onmessage_def)
  show "error (onmessage st (Parsed p)) = error st"
    using t by (simp add: onmessage_def)
  show "esRef (onmessage st (Parsed p)) = esRef st"
    using t by (simp add: onmessage_def)
next
  assume t: "p_type p = Some ''complete''"
  show "report (onmessage st (Parsed p)) = p_data p"
    using t by (simp add: onmessage_def es_close_def)
  show "isComplete (onmessage st (Parsed p))"
    using t by (simp add: onmessage_def es_close_def)
  show c: "esRef (onmessage st (Parsed p)) = Some CLOSED"
    using t by (simp add: onmessage_def es_close_def)
  then have "\<not> live (onmessage st (Parsed p))"
    by (simp add: live_def)
  then show "receive_all (onmessage st (Parsed p)) evs = onmessage st (Parsed p)"
    by (rule receive_all_not_live)
qed

theorem partial_merges_complete_replaces_witness:
  "p_type sample_partial = Some ''partial'' \<and>
   p_type sample_complete = Some ''complete'' \<and>
   (\<exists>r. report (onmessage (initial_state\<lparr>report := Some sample_report\<rparr>) (Parsed sample_partial)) = Some r \<and>
        r ''overall_score'' = Some (Num 7) \<and>
        r ''product_name'' = Some (Str ''Kettle'') \<and>
        r ''clusters'' = None) \<and>
   report (onmessage initial_state (Parsed sample_complete)) = Some sample_report \<and>
   isComplete (onmessage initial_state (Parsed sample_complete)) \<and>
   receive_all (onmessage initial_state (Parsed sample_complete)) [Parsed sample_partial] =
     onmessage initial_state (Parsed sample_complete)"
proof -
  have p: "p_type sample_partial = Some ''partial''"
    by (simp add: sample_partial_def frame_def)
  have c: "p_type sample_complete = Some ''complete''"
    by (simp add: sample_complete_def frame_def)
  have d: "p_data sample_partial = Some [''overall_score'' \<mapsto> Num 7]"
    by (simp add: sample_partial_def)
  have e: "p_data sample_complete = Some sample_report"
    by (simp add: sample_complete_def)
  from partial_merges_complete_replaces
         [of sample_partial "initial_state\<lparr>report := Some sample_report\<rparr>"] p
  obtain r where r: "report (onmessage (initial_state\<lparr>report := Some sample_report\<rparr>) (Parsed sample_partial)) = Some r"
    and k: "\<And>k. r k = (case (case p_data sample_partial of None \<Rightarrow> Map.empty | Some d \<Rightarrow> d) k of
                          Some v \<Rightarrow> Some v
                        | None \<Rightarrow> (case report (initial_state\<lparr>report := Some sample_report\<rparr>) of
                                     None \<Rightarrow> Map.empty | Some old \<Rightarrow> old) k)"
    by blast
  have "r ''overall_score'' = Some (Num 7)" "r ''product_name'' = Some (Str ''Kettle'')"
       "r ''clusters'' = None"
    by (simp_all add: k d sample_report_def)
  with r have first: "\<exists>r. report (onmessage (initial_state\<lparr>report := Some sample_report\<rparr>) (Parsed sample_partial)) = Some r \<and>
        r ''overall_score'' = Some (Num 7) \<and>
        r ''product_name'' = Some (Str ''Kettle'') \<and>
        r ''clusters'' = None"
    by blast
  from partial_merges_complete_replaces
         [of sample_complete initial_state "[Parsed sample_partial]"] c e
  have "report (onmessage initial_state (Parsed sample_complete)) = Some sample_report \<and>
        isComplete (onmessage initial_state (Parsed sample_complete)) \<and>
        receive_all (onmessage initial_state (Parsed sample_complete)) [Parsed sample_partial] =
          onmessage initial_state (Parsed sample_complete)"
    by simp
  with p c first show ?thesis
    by blast
qed

text \<open>
  C7. Each \<open>progress\<close> frame handled appends its entry at the end of the progress list and
  no other frame touches the list; so after any sequence of frames the list is the old list
  followed by the entries of the progress frames, in the order received. On a live stream
  the frames handled are those up to the first terminal frame. The message the panel
  displays is that of the last progress frame (\<open>Starting...\<close> before the first one).
\<close>

theorem progress_frames_kept_in_order:
  "progress (onmessage st (Parsed p)) =
     (if p_type p = Some ''progress'' then progress st @ [entry_of p] else progress st) \<and>
   progress (foldl onmessage st evs) = progress st @ map entry_of (progress_frames evs) \<and>
   (live st \<longrightarrow>
      progress (receive_all st evs) =
        progress st @ map entry_of (progress_frames (takeWhile (\<lambda>e. \<not> is_terminal e) evs))) \<and>
   latestMessage (progress (foldl onmessage initial_state evs)) =
     (if progress_frames evs = [] then ''Starting...''
      else or_string (p_message (last (progress_frames evs))) [])"
proof (intro conjI impI)
  show "progress (onmessage st (Parsed p)) =
     (if p_type p = Some ''progress'' then progress st @ [entry_of p] else progress st)"
    by (simp add: onmessage_def es_close_def)
  show "progress (foldl onmessage st evs) = progress st @ map entry_of (progress_frames evs)"
    by (rule progress_foldl_onmessage)
  show "progress (receive_all st evs) =
        progress st @ map entry_of (progress_frames (takeWhile (\<lambda>e. \<not> is_terminal e) evs))"
    if "live st"
    using that by (rule progress_receive_all)
  have init: "progress (foldl onmessage initial_state evs) = map entry_of (progress_frames evs)"
    by (simp add: progress_foldl_onmessage initial_state_def)
  show "latestMessage (progress (foldl onmessage initial_state evs)) =
     (if progress_frames evs = [] then ''Starting...''
      else or_string (p_message (last (progress_frames evs))) [])"
  proof (cases "progress_frames evs = []")
    case True
    then show ?thesis by (simp add: init latestMessage_def)
  next
    case False
    then have "map entry_of (progress_frames evs) ! (length (progress_frames evs) - 1) =
                 entry_of (last (progress_frames evs))"
      by (simp add: last_conv_nth)
    with False show ?thesis
      by (simp add: init latestMessage_def entry_of_def)
  qed
qed

theorem progress_frames_kept_in_order_witness:
  "live (open_stream ''job-1'' initial_state) \<and>
   map message (progress (receive_all (open_stream ''job-1'' initial_state)
      [Parsed (sample_progress ''Enriching query'' 1), Parsed sample_partial,
       Parsed (sample_progress ''Scraping sources'' 2), Parsed (frame ''cancelled''),
       Parsed (sample_progress ''late'' 3)])) = [''Enriching query'', ''Scraping sources''] \<and>
   latestMessage (progress (foldl onmessage initial_state
      [Parsed (sample_progress ''Enriching query'' 1), Parsed sample_partial,
       Parsed (sample_progress ''Scraping sources'' 2)])) = ''Scraping sources''"
proof -
  have l: "live (open_stream ''job-1'' initial_state)"
    by (simp add: live_def open_stream_def initial_state_def)
  have n: "\<not> is_terminal (Parsed (sample_progress m k))" "\<not> is_terminal (Parsed sample_partial)"
          "is_terminal (Parsed (frame ''cancelled''))" for m k
    by (simp_all add: is_terminal_def sample_progress_def sample_partial_def frame_def)
  have t: "p_type (sample_progress m k) = Some ''progress''" "p_type sample_partial \<noteq> Some ''progress''"
          "p_message (sample_progress m k) = Some m" for m k
    by (simp_all add: sample_progress_def sample_partial_def frame_def)
  have m: "message (entry_of (sample_progress m k)) = or_string (Some m) []" for m k
    by (simp add: entry_of_def sample_progress_def)
  have i: "progress (open_stream ''job-1'' initial_state) = []"
    by (simp add: open_stream_def initial_state_def)
  note th = progress_frames_kept_in_order [of "open_stream ''job-1'' initial_state"]
  from th l have a: "progress (receive_all (open_stream ''job-1'' initial_state) evs) =
      progress (open_stream ''job-1'' initial_state) @
        map entry_of (progress_frames (takeWhile (\<lambda>e. \<not> is_terminal e) evs))" for evs
    by blast
  from th have b: "latestMessage (progress (foldl onmessage initial_state evs)) =
     (if progress_frames evs = [] then ''Starting...''
      else or_string (p_message (last (progress_frames evs))) [])" for evs
    by blast
  have d: "map message (progress (receive_all (open_stream ''job-1'' initial_state)
      [Parsed (sample_progress ''Enriching query'' 1), Parsed sample_partial,
       Parsed (sample_progress ''Scraping sources'' 2), Parsed (frame ''cancelled''),
       Parsed (sample_progress ''late'' 3)])) = [''Enriching query'', ''Scraping sources'']"
    by (simp add: a n t m i or_string_def)
  have c: "latestMessage (progress (foldl onmessage initial_state
      [Parsed (sample_progress ''Enriching query'' 1), Parsed sample_partial,
       Parsed (sample_progress ''Scraping sources'' 2)])) = ''Scraping sources''"
    by (subst b) (simp add: t or_string_def)
  show ?thesis
    by (intro conjI l d c)
qed

section \<open>Properties of the theme cluster cards\<close>

lemma mset_insert_by: "mset (insert_by cmp x xs) = add_mset x (mset xs)"
  by (induction xs) auto

lemma mset_array_sort: "mset (array_sort cmp xs) = mset xs"
  unfolding array_sort_def by (induction xs) (auto simp: mset_insert_by)

lemma set_insert_by: "set (insert_by cmp x xs) = insert x (set xs)"
  by (induction xs) auto

lemma desc_insert_by:
  "sorted_wrt (\<lambda>a b. review_count b \<le> review_count a) xs \<Longrightarrow>
   sorted_wrt (\<lambda>a b. review_count b \<le> review_count a) (insert_by by_review_count_desc x xs)"
  by (induction xs) (auto simp: set_insert_by by_review_count_desc_def)

lemma desc_array_sort:
  "sorted_wrt (\<lambda>a b. review_count b \<le> review_count a) (array_sort by_review_count_desc xs)"
  unfolding array_sort_def by (induction xs) (auto simp: desc_insert_by)

lemma ThemeClusters_eq:
  "ThemeClusters h a =
     (h @ [array_sort by_review_count_desc (h ! a)],
      map cluster_card (array_sort by_review_count_desc (h ! a)))"
  by (simp add: ThemeClusters_def array_copy_def sort_in_place_def)

text \<open>
  C9. The cards are rendered from a list that is a permutation of the clusters passed in and
  is in non-increasing order of \<open>review_count\<close>, so the cards come in non-increasing
  order of their counts; the array passed in, like every array that existed before, is left
  as it was: the sorted list is a new array.
\<close>

theorem theme_clusters_sorted_copy:
  assumes "clusters < length h"
  shows "\<exists>sorted. snd (ThemeClusters h clusters) = map cluster_card sorted \<and>
           mset sorted = mset (h ! clusters) \<and>
           sorted_wrt (\<lambda>a b. review_count b \<le> review_count a) sorted \<and>
           sorted_wrt (\<lambda>a b. card_count b \<le> card_count a) (snd (ThemeClusters h clusters)) \<and>
           fst (ThemeClusters h clusters) ! clusters = h ! clusters \<and>
           take (length h) (fst (ThemeClusters h clusters)) = h"
proof -
  let ?s = "array_sort by_review_count_desc (h ! clusters)"
  have d: "sorted_wrt (\<lambda>a b. review_count b \<le> review_count a) ?s"
    by (rule desc_array_sort)
  have "sorted_wrt (\<lambda>a b. card_count b \<le> card_count a) (map cluster_card ?s)"
    using d by (simp add: sorted_wrt_map cluster_card_def)
  moreover have "(h @ [?s]) ! clusters = h ! clusters"
    using assms by (simp add: nth_append)
  ultimately have "snd (ThemeClusters h clusters) = map cluster_card ?s \<and>
           mset ?s = mset (h ! clusters) \<and>
           sorted_wrt (\<lambda>a b. review_count b \<le> review_count a) ?s \<and>
           sorted_wrt (\<lambda>a b. card_count b \<le> card_count a) (snd (ThemeClusters h clusters)) \<and>
           fst (ThemeClusters h clusters) ! clusters = h ! clusters \<and>
           take (length h) (fst (ThemeClusters h clusters)) = h"
    using d by (simp add: ThemeClusters_eq mset_array_sort)
  then show ?thesis by blast
qed

theorem theme_clusters_sorted_copy_witness:
  "0 < length [sample_clusters] \<and>
   fst (ThemeClusters [sample_clusters] 0) ! 0 = sample_clusters \<and>
   sorted_wrt (\<lambda>a b. card_count b \<le> card_count a) (snd (ThemeClusters [sample_clusters] 0)) \<and>
   map card_key (snd (ThemeClusters [sample_clusters] 0)) = [1, 0, 2] \<and>
   map card_count (snd (ThemeClusters [sample_clusters] 0)) = [9, 4, 4]"
proof -
  have l: "0 < length [sample_clusters]"
    by simp
  from theme_clusters_sorted_copy [OF l]
  have a: "fst (ThemeClusters [sample_clusters] 0) ! 0 = sample_clusters"
    and b: "sorted_wrt (\<lambda>a b. card_count b \<le> card_count a) (snd (ThemeClusters [sample_clusters] 0))"
    by auto
  have c: "map card_key (snd (ThemeClusters [sample_clusters] 0)) = [1, 0, 2]"
    by (simp add: ThemeClusters_eq sample_clusters_def array_sort_def by_review_count_desc_def
        cluster_card_def)
  have d: "map card_count (snd (ThemeClusters [sample_clusters] 0)) = [9, 4, 4]"
    by (simp add: ThemeClusters_eq sample_clusters_def array_sort_def by_review_count_desc_def
        cluster_card_def)
  show ?thesis
    by (intro conjI l a b c d)
qed

section \<open>Properties of the rating distribution\<close>

lemma foldl_plus_sum_list: "foldl (\<lambda>s n. s + n) a xs = a + sum_list xs" for a :: int
  by (induction xs arbitrary: a) simp_all

lemma distribution_total_sum: "distribution_total d = sum_list (map snd d)"
  by (simp add: distribution_total_def foldl_plus_sum_list)

lemma Math_round_nearest:
  "real_of_int (Math_round v) - 1 / 2 \<le> v \<and> v < real_of_int (Math_round v) + 1 / 2"
  unfolding Math_round_def by linarith

text \<open>
  C10, as stated, fails on the percentage: with 23 five-star and 17 four-star ratings the
  component shows 57 for the five stars, while \<open>round(100 x 23 / 40)\<close> is 58. The quotient
  \<open>23 / 40\<close> has no binary64 representation; rounded, and multiplied by 100, it falls below
  57.5.
\<close>

theorem five_star_percentage_57_not_58:
  "RatingDistribution [(''5'', 23), (''4'', 17)] =
     RatingBars
       [\<lparr>row_star = 5, row_count = 23, row_pct = Some 57\<rparr>,
        \<lparr>row_star = 4, row_count = 17, row_pct = Some 43\<rparr>,
        \<lparr>row_star = 3, row_count = 0, row_pct = Some 0\<rparr>,
        \<lparr>row_star = 2, row_count = 0, row_pct = Some 0\<rparr>,
        \<lparr>row_star = 1, row_count = 0, row_pct = Some 0\<rparr>] 40 \<and>
   round_100_count_over_total 23 40 = 58 \<and>
   fl (fl (23 / 40) * 100) = 8092405580431359 / 140737488355328"
  by code_simp

text \<open>
  C10, amended. The total is the sum of all counts of the distribution. With total 0 the
  component renders the fallback, which has no rows and so no division. Otherwise it renders
  one row for each of the stars 5, 4, 3, 2, 1, with the count found under the star's key (0
  when the key is missing) and as percentage the integer nearest (a tie going up) to
  \<open>(count / total) * 100\<close> as binary64 arithmetic computes it, the quotient rounded and then
  the product; the percentage is a number in every row: no division by zero takes place.
\<close>

theorem rating_distribution_guarded:
  "distribution_total d = sum_list (map snd d) \<and>
   (distribution_total d = 0 \<longrightarrow> RatingDistribution d = NoStarRatings) \<and>
   (distribution_total d \<noteq> 0 \<longrightarrow>
      (\<exists>rows. RatingDistribution d = RatingBars rows (distribution_total d) \<and>
         map row_star rows = [5, 4, 3, 2, 1] \<and>
         (\<forall>r \<in> set rows.
            row_count r = (case map_of d (String_of_star (row_star r)) of None \<Rightarrow> 0 | Some n \<Rightarrow> n) \<and>
            (\<exists>p. row_pct r = Some p \<and>
               real_of_int p - 1 / 2 \<le>
                 fl (fl (real_of_int (row_count r) / real_of_int (distribution_total d)) * 100) \<and>
               fl (fl (real_of_int (row_count r) / real_of_int (distribution_total d)) * 100) <
                 real_of_int p + 1 / 2))))"
proof (intro conjI impI)
  show "distribution_total d = sum_list (map snd d)"
    by (rule distribution_total_sum)
  show "RatingDistribution d = NoStarRatings" if "distribution_total d = 0"
    using that by (simp add: RatingDistribution_def)
  show "\<exists>rows. RatingDistribution d = RatingBars rows (distribution_total d) \<and>
         map row_star rows = [5, 4, 3, 2, 1] \<and>
         (\<forall>r \<in> set rows.
            row_count r = (case map_of d (String_of_star (row_star r)) of None \<Rightarrow> 0 | Some n \<Rightarrow> n) \<and>
            (\<exists>p. row_pct r = Some p \<and>
               real_of_int p - 1 / 2 \<le>
                 fl (fl (real_of_int (row_count r) / real_of_int (distribution_total d)) * 100) \<and>
               fl (fl (real_of_int (row_count r) / real_of_int (distribution_total d)) * 100) <
                 real_of_int p + 1 / 2))"
    if nz: "distribution_total d \<noteq> 0"
  proof -
    let ?rows = "map (rating_row d (distribution_total d)) [5, 4, 3, 2, 1]"
    have a: "RatingDistribution d = RatingBars ?rows (distribution_total d)"
      using nz by (simp add: RatingDistribution_def Let_def)
    have b: "map row_star ?rows = [5, 4, 3, 2, 1]"
      by (simp add: rating_row_def Let_def)
    have p: "\<exists>p. row_pct (rating_row d (distribution_total d) star) = Some p \<and>
               real_of_int p - 1 / 2 \<le>
                 fl (fl (real_of_int (row_count (rating_row d (distribution_total d) star)) /
                         real_of_int (distribution_total d)) * 100) \<and>
               fl (fl (real_of_int (row_count (rating_row d (distribution_total d) star)) /
                       real_of_int (distribution_total d)) * 100) <
                 real_of_int p + 1 / 2" for star
      using nz Math_round_nearest by (simp add: rating_row_def percentage_def Let_def)
    have k: "row_count (rating_row d (distribution_total d) star) =
               (case map_of d (String_of_star (row_star (rating_row d (distribution_total d) star))) of
                  None \<Rightarrow> 0 | Some n \<Rightarrow> n)" for star
      by (simp add: rating_row_def Let_def)
    have c: "\<forall>r \<in> set ?rows.
            row_count r = (case map_of d (String_of_star (row_star r)) of None \<Rightarrow> 0 | Some n \<Rightarrow> n) \<and>
            (\<exists>p. row_pct r = Some p \<and>
               real_of_int p - 1 / 2 \<le>
                 fl (fl (real_of_int (row_count r) / real_of_int (distribution_total d)) * 100) \<and>
               fl (fl (real_of_int (row_count r) / real_of_int (distribution_total d)) * 100) <
                 real_of_int p + 1 / 2)"
      using p k by auto
    show ?thesis
      by (rule exI [of _ ?rows]) (intro conjI a b c)
  qed
qed

theorem rating_distribution_guarded_witness:
  "distribution_total [(''5'', 2), (''3'', 1)] = 3 \<and>
   RatingDistribution [(''5'', 2), (''3'', 1)] =
     RatingBars
       [\<lparr>row_star = 5, row_count = 2, row_pct = Some 67\<rparr>,
        \<lparr>row_star = 4, row_count = 0, row_pct = Some 0\<rparr>,
        \<lparr>row_star = 3, row_count = 1, row_pct = Some 33\<rparr>,
        \<lparr>row_star = 2, row_count = 0, row_pct = Some 0\<rparr>,
        \<lparr>row_star = 1, row_count = 0, row_pct = Some 0\<rparr>] 3 \<and>
   RatingDistribution [(''1'', 1), (''2'', 7)] =
     RatingBars
       [\<lparr>row_star = 5, row_count = 0, row_pct = Some 0\<rparr>,
        \<lparr>row_star = 4, row_count = 0, row_pct = Some 0\<rparr>,
        \<lparr>row_star = 3, row_count = 0, row_pct = Some 0\<rparr>,
        \<lparr>row_star = 2, row_count = 7, row_pct = Some 88\<rparr>,
        \<lparr>row_star = 1, row_count = 1, row_pct = Some 13\<rparr>] 8 \<and>
   distribution_total [(''5'', 0), (''3'', 0)] = 0 \<and>
   RatingDistribution [(''5'', 0), (''3'', 0)] = NoStarRatings \<and>
   fl (1 / 10) = 3602879701896397 / 36028797018963968 \<and>
   fl 9007199254740993 = 9007199254740992 \<and>
   fl 9007199254740995 = 9007199254740996"
proof -
  have t: "distribution_total [(''5'', 2), (''3'', 1)] = 3"
    using rating_distribution_guarded [of "[(''5'', 2), (''3'', 1)]"] by simp
  have z: "distribution_total [(''5'', 0), (''3'', 0)] = 0"
    using rating_distribution_guarded [of "[(''5'', 0), (''3'', 0)]"] by simp
  have n: "RatingDistribution [(''5'', 0), (''3'', 0)] = NoStarRatings"
    using rating_distribution_guarded [of "[(''5'', 0), (''3'', 0)]"] z by blast
  have b: "RatingDistribution [(''5'', 2), (''3'', 1)] =
     RatingBars
       [\<lparr>row_star = 5, row_count = 2, row_pct = Some 67\<rparr>,
        \<lparr>row_star = 4, row_count = 0, row_pct = Some 0\<rparr>,
        \<lparr>row_star = 3, row_count = 1, row_pct = Some 33\<rparr>,
        \<lparr>row_star = 2, row_count = 0, row_pct = Some 0\<rparr>,
        \<lparr>row_star = 1, row_count = 0, row_pct = Some 0\<rparr>] 3"
    by code_simp
  have c: "RatingDistribution [(''1'', 1), (''2'', 7)] =
     RatingBars
       [\<lparr>row_star = 5, row_count = 0, row_pct = Some 0\<rparr>,
        \<lparr>row_star = 4, row_count = 0, row_pct = Some 0\<rparr>,
        \<lparr>row_star = 3, row_count = 0, row_pct = Some 0\<rparr>,
        \<lparr>row_star = 2, row_count = 7, row_pct = Some 88\<rparr>,
        \<lparr>row_star = 1, row_count = 1, row_pct = Some 13\<rparr>] 8"
    by code_simp
  have f: "fl (1 / 10) = 3602879701896397 / 36028797018963968"
    "fl 9007199254740993 = 9007199254740992" "fl 9007199254740995 = 9007199254740996"
    by code_simp+
  show ?thesis
    by (intro conjI t b c z n f)
qed

section \<open>Properties of submitting\<close>

text \<open>
  C8. Every request the home page posts (with or without the search history) carries
  \<open>use_cache = true\<close> and the trimmed query, and a request is posted for every query that
  is not blank. Every request the Refresh button posts carries \<open>use_cache = false\<close> and
  the product name of the report on the page, and is posted whenever the report has a
  product name and no refresh is under way; for such a request the orchestrator never
  short-circuits to a cached report, whatever the cache holds.
\<close>

theorem home_uses_cache_refresh_bypasses:
  "(snd (handleSubmit history q) = Some req \<longrightarrow> use_cache req \<and> query req = trim q) \<and>
   (handleSubmit_plain q = Some req \<longrightarrow> use_cache req \<and> query req = trim q) \<and>
   (trim q \<noteq> [] \<longrightarrow>
      snd (handleSubmit history q) = Some \<lparr>query = trim q, use_cache = True\<rparr> \<and>
      handleSubmit_plain q = Some \<lparr>query = trim q, use_cache = True\<rparr>) \<and>
   (handleRefresh rep isRefreshing = Some req \<longrightarrow>
      \<not> use_cache req \<and> product_name_of rep = Some (query req) \<and>
      cache_short_circuit lookup req = None) \<and>
   (product_name_of rep = Some name \<and> name \<noteq> [] \<and> \<not> isRefreshing \<longrightarrow>
      handleRefresh rep isRefreshing = Some \<lparr>query = name, use_cache = False\<rparr>)"
proof (intro conjI impI)
  assume "snd (handleSubmit history q) = Some req"
  then have "req = \<lparr>query = trim q, use_cache = True\<rparr>"
    by (simp add: handleSubmit_def Let_def split: if_splits)
  then show "use_cache req" and "query req = trim q"
    by simp_all
next
  assume "handleSubmit_plain q = Some req"
  then have "req = \<lparr>query = trim q, use_cache = True\<rparr>"
    by (simp add: handleSubmit_plain_def Let_def split: if_splits)
  then show "use_cache req" and "query req = trim q"
    by simp_all
next
  assume "trim q \<noteq> []"
  then show "snd (handleSubmit history q) = Some \<lparr>query = trim q, use_cache = True\<rparr>"
    and "handleSubmit_plain q = Some \<lparr>query = trim q, use_cache = True\<rparr>"
    by (simp_all add: handleSubmit_def handleSubmit_plain_def Let_def)
next
  assume a: "handleRefresh rep isRefreshing = Some req"
  then obtain name where n: "product_name_of rep = Some name"
    and r: "req = \<lparr>query = name, use_cache = False\<rparr>"
    by (auto simp: handleRefresh_def split: option.splits if_splits)
  show "\<not> use_cache req"
    by (simp add: r)
  show "product_name_of rep = Some (query req)"
    by (simp add: r n)
  show "cache_short_circuit lookup req = None"
    by (simp add: r cache_short_circuit_def)
next
  assume "product_name_of rep = Some name \<and> name \<noteq> [] \<and> \<not> isRefreshing"
  then show "handleRefresh rep isRefreshing = Some \<lparr>query = name, use_cache = False\<rparr>"
    by (simp add: handleRefresh_def)
qed

theorem home_uses_cache_refresh_bypasses_witness:
  "trim ''  Sony XM5 '' = ''Sony XM5'' \<and>
   handleSubmit [''a'', ''Sony XM5''] ''  Sony XM5 '' =
     ([''Sony XM5'', ''a''], Some \<lparr>query = ''Sony XM5'', use_cache = True\<rparr>) \<and>
   handleSubmit_plain ''  Sony XM5 '' = Some \<lparr>query = ''Sony XM5'', use_cache = True\<rparr> \<and>
   product_name_of (Some sample_report) = Some ''Kettle'' \<and>
   handleRefresh (Some sample_report) False = Some \<lparr>query = ''Kettle'', use_cache = False\<rparr> \<and>
   cache_short_circuit (\<lambda>q. Some sample_report) \<lparr>query = ''Kettle'', use_cache = False\<rparr> = None \<and>
   cache_short_circuit (\<lambda>q. Some sample_report) \<lparr>query = ''Kettle'', use_cache = True\<rparr> =
     Some sample_report"
proof -
  have t: "trim ''  Sony XM5 '' = ''Sony XM5''"
    by (simp add: trim_def js_whitespace_def)
  have p: "product_name_of (Some sample_report) = Some ''Kettle''"
    by (simp add: product_name_of_def sample_report_def)
  note th = home_uses_cache_refresh_bypasses
              [where history = "[''a'', ''Sony XM5'']" and q = "''  Sony XM5 ''"
                 and req = "\<lparr>query = ''Kettle'', use_cache = False\<rparr>"
                 and rep = "Some sample_report" and isRefreshing = False
                 and lookup = "\<lambda>q. Some sample_report" and name = "''Kettle''"]
  have h: "fst (handleSubmit [''a'', ''Sony XM5''] ''  Sony XM5 '') = [''Sony XM5'', ''a'']"
    by (simp add: handleSubmit_def t Let_def)
  have ne: "trim ''  Sony XM5 '' \<noteq> []"
    by (simp add: t)
  from th ne have "snd (handleSubmit [''a'', ''Sony XM5''] ''  Sony XM5 '') =
      Some \<lparr>query = trim ''  Sony XM5 '', use_cache = True\<rparr>"
    and "handleSubmit_plain ''  Sony XM5 '' = Some \<lparr>query = trim ''  Sony XM5 '', use_cache = True\<rparr>"
    by blast+
  then have s: "snd (handleSubmit [''a'', ''Sony XM5''] ''  Sony XM5 '') =
      Some \<lparr>query = ''Sony XM5'', use_cache = True\<rparr>"
    and s': "handleSubmit_plain ''  Sony XM5 '' = Some \<lparr>query = ''Sony XM5'', use_cache = True\<rparr>"
    by (simp_all add: t)
  have "''Kettle'' \<noteq> []"
    by simp
  with th p have r: "handleRefresh (Some sample_report) False = Some \<lparr>query = ''Kettle'', use_cache = False\<rparr>"
    by blast
  with th have c: "cache_short_circuit (\<lambda>q. Some sample_report) \<lparr>query = ''Kettle'', use_cache = False\<rparr> = None"
    by blast
  have c': "cache_short_circuit (\<lambda>q. Some sample_report) \<lparr>query = ''Kettle'', use_cache = True\<rparr> =
     Some sample_report"
    by (simp add: cache_short_circuit_def)
  have hs: "handleSubmit [''a'', ''Sony XM5''] ''  Sony XM5 '' =
     ([''Sony XM5'', ''a''], Some \<lparr>query = ''Sony XM5'', use_cache = True\<rparr>)"
    using h s by (simp add: prod_eq_iff)
  show ?thesis
    by (intro conjI t hs s' p r c c')
qed

section \<open>Properties of the report page and of the guards\<close>







lemma length_monthly_means: "length (monthly_means dated) = card (set (map fst dated))"
  by (simp add: monthly_means_def populated_months_def length_remdups_card_conv)

text \<open>
  C5. With fewer than 2 populated months the drift detector returns, as a result and not as
  an error, the report with an empty monthly list and the trend stable, whatever the
  change-point procedure would do. The timeline component, given a monthly series of length
  below 2, renders the fallback and its effect draws nothing.
\<close>

theorem drift_needs_two_months:
  "(card (set (map fst dated)) < 2 \<longrightarrow>
      detect_drift changepoints classify dated =
        Inr \<lparr>monthly_sentiment = [], change_points = [], trend = Stable\<rparr>) \<and>
   (length monthly < 2 \<longrightarrow>
      SentimentTimeline monthly changePoints t = NotEnoughData \<and>
      draw_timeline svg_mounted parseMonth monthly changePoints t = [])"
proof (intro conjI impI)
  assume "card (set (map fst dated)) < 2"
  then have "length (monthly_means dated) < 2"
    by (simp only: length_monthly_means)
  then show "detect_drift changepoints classify dated =
        Inr \<lparr>monthly_sentiment = [], change_points = [], trend = Stable\<rparr>"
    by (simp add: detect_drift_def Let_def)
next
  assume "length monthly < 2"
  then show "SentimentTimeline monthly changePoints t = NotEnoughData"
    and "draw_timeline svg_mounted parseMonth monthly changePoints t = []"
    by (simp_all add: SentimentTimeline_def draw_timeline_def)
qed

theorem drift_needs_two_months_witness:
  "card (set (map fst [(''2024-03'', 4 / 5 :: real), (''2024-03'', 2 / 5)])) < 2 \<and>
   detect_drift (\<lambda>m. Inl ''no change points'') (\<lambda>m. Improving)
       [(''2024-03'', 4 / 5), (''2024-03'', 2 / 5)] =
     Inr \<lparr>monthly_sentiment = [], change_points = [], trend = Stable\<rparr> \<and>
   SentimentTimeline [\<lparr>month = ''2024-03'', avg_sentiment = 3 / 5\<rparr>] [''2024-03''] Improving =
     NotEnoughData \<and>
   draw_timeline True (\<lambda>m. Some 0) [\<lparr>month = ''2024-03'', avg_sentiment = 3 / 5\<rparr>] [''2024-03'']
       Improving = []"
proof -
  note th = drift_needs_two_months
              [where dated = "[(''2024-03'', 4 / 5), (''2024-03'', 2 / 5)]"
                 and changepoints = "\<lambda>m. Inl ''no change points''" and classify = "\<lambda>m. Improving"
                 and monthly = "[\<lparr>month = ''2024-03'', avg_sentiment = 3 / 5\<rparr>]"
                 and changePoints = "[''2024-03'']" and t = Improving
                 and svg_mounted = True and parseMonth = "\<lambda>m. Some 0"]
  have a: "card (set (map fst [(''2024-03'', 4 / 5 :: real), (''2024-03'', 2 / 5)])) < 2"
    by simp
  have b: "length [\<lparr>month = ''2024-03'', avg_sentiment = 3 / 5\<rparr>] < 2"
    by simp
  from th a have c: "detect_drift (\<lambda>m. Inl ''no change points'') (\<lambda>m. Improving)
       [(''2024-03'', 4 / 5), (''2024-03'', 2 / 5)] =
     Inr \<lparr>monthly_sentiment = [], change_points = [], trend = Stable\<rparr>"
    by blast
  from th b have d: "SentimentTimeline [\<lparr>month = ''2024-03'', avg_sentiment = 3 / 5\<rparr>] [''2024-03''] Improving =
     NotEnoughData"
    and e: "draw_timeline True (\<lambda>m. Some 0) [\<lparr>month = ''2024-03'', avg_sentiment = 3 / 5\<rparr>] [''2024-03'']
       Improving = []"
    by blast+
  show ?thesis
    by (intro conjI a c d e)
qed

end
